theory Spec2Isabelle
  imports Main
begin

section \<open>Apio package utilities (apio/pkg_util.py)\<close>

text \<open>
  A shallow embedding of \<^verbatim>\<open>apio/pkg_util.py\<close>: the composition of the environment
  mutations of the packages, their application to the process environment behind a
  set-once flag, and the check of the required packages.

  Conventions of the model:
  \<^item> an exception is a value of \<open>error\<close>; a function that may raise returns
    \<open>error + 'a\<close>, and one that also changes the process state returns the state it
    leaves behind next to the result, also when it raises;
  \<^item> \<^verbatim>\<open>sys.exit(1)\<close> is the exception \<open>SystemExit 1\<close>, as in Python;
  \<^item> a Python dict is an association list where the code iterates over it (iteration
    order is insertion order) and a map where it only looks keys up;
  \<^item> \<^verbatim>\<open>os.environ\<close> is a map from names to values; an assignment to it can raise,
    leaving the map as it was (an empty name, a name with \<^verbatim>\<open>=\<close>, a NUL byte), and what it
    raises is a parameter of the host; values are strings, as \<^verbatim>\<open>EnvMutations\<close> declares;
  \<^item> what \<^verbatim>\<open>click\<close> prints is appended to \<open>stdout\<close>, a styled fragment keeping its
    text and its colour instead of the escape codes.
  The classes \<^verbatim>\<open>Resources\<close> and \<^verbatim>\<open>Profile\<close>, the function \<^verbatim>\<open>util.is_windows\<close> and
  the library \<^verbatim>\<open>semantic_version\<close> are not part of the file; the model takes what the
  code reads from them as parameters. Functions keep their names, without the leading
  underscores; a loop of a function is a recursive function of its own.
\<close>

subsection \<open>Errors, output and process state\<close>

datatype error =
    AssertionError
  | KeyError string
  | RuntimeError string
  | ValueError string
  | AttributeError string
  | OSError string
  | SystemExit int

text \<open>\<open>Style text fg\<close> is \<^verbatim>\<open>click.style(text, fg=fg)\<close>; \<open>Txt\<close> is unstyled text.\<close>

datatype frag = Txt string | Style string "string option"

type_synonym line = "frag list"

record state =
  environ :: "string \<rightharpoonup> string"
  ENV_ALREADY_SET_FLAG :: bool
  stdout :: "line list"

text \<open>
  What the code reads from the machine it runs on. \<open>setenv_error name value\<close> is the
  exception that \<^verbatim>\<open>os.environ[name] = value\<close> raises there, if any.
\<close>

record host =
  pathsep :: string
  is_windows :: bool
  is_dir :: "string \<Rightarrow> bool"
  setenv_error :: "string \<Rightarrow> string \<Rightarrow> error option"

definition echo :: "line \<Rightarrow> state \<Rightarrow> state" where
  "echo l st = st\<lparr>stdout := stdout st @ [l]\<rparr>"

definition secho :: "string \<Rightarrow> string option \<Rightarrow> state \<Rightarrow> state" where
  "secho msg fg st = echo [Style msg fg] st"

subsection \<open>Data model\<close>

record EnvMutations =
  paths :: "string list"
  vars :: "(string \<times> string) list"

text \<open>
  The json \<^verbatim>\<open>env\<close> section of a package: the keys \<^verbatim>\<open>path\<close> and \<^verbatim>\<open>vars\<close> may be
  absent; \<^verbatim>\<open>vars\<close> is a dict, kept in iteration order.
\<close>

record package_env =
  path :: "string list option"
  vars_section :: "(string \<times> string) list option"

record package_config =
  env :: "package_env option"

text \<open>
  The fields of \<^verbatim>\<open>Resources\<close> that the code reads. \<open>platform_packages\<close> and
  \<open>all_packages\<close> are dicts from package names to package configurations;
  \<open>distribution\<close> is a dict whose entry \<^verbatim>\<open>packages\<close> maps package names to version
  constraints; \<open>get_package_dir\<close> returns an optional path.
\<close>

record resources =
  platform_packages :: "(string \<times> package_config) list"
  all_packages :: "(string \<times> package_config) list"
  distribution :: "string \<rightharpoonup> (string \<rightharpoonup> string)"
  get_package_dir :: "string \<Rightarrow> string option"

text \<open>\<^verbatim>\<open>Profile().packages\<close>: package name to a dict that may hold \<^verbatim>\<open>version\<close>.\<close>

record profile =
  packages :: "string \<rightharpoonup> (string \<rightharpoonup> string)"

text \<open>
  The three operations of \<^verbatim>\<open>semantic_version\<close> that the code calls: the two
  constructors, which may raise, and \<^verbatim>\<open>version in spec\<close>.
\<close>

record ('s, 'v) semantic_version =
  SimpleSpec :: "string \<Rightarrow> error + 's"
  Version :: "string \<Rightarrow> error + 'v"
  contains :: "'s \<Rightarrow> 'v \<Rightarrow> bool"

subsection \<open>Composing the environment mutations\<close>

text \<open>The inner loop: \<^verbatim>\<open>result.vars.append((var_name, var_value))\<close> for each item.\<close>

fun append_vars :: "(string \<times> string) list \<Rightarrow> EnvMutations \<Rightarrow> EnvMutations" where
  "append_vars [] result = result"
| "append_vars ((var_name, var_value) # rest) result =
     append_vars rest (result\<lparr>vars := vars result @ [(var_name, var_value)]\<rparr>)"

text \<open>The outer loop over \<^verbatim>\<open>resources.platform_packages.items()\<close>.\<close>

fun collect_env_mutations ::
  "(string \<times> package_config) list \<Rightarrow> EnvMutations \<Rightarrow> error + EnvMutations" where
  "collect_env_mutations [] result = Inr result"
| "collect_env_mutations ((name, package_config) # rest) result =
     (case env package_config of
        None \<Rightarrow> Inl AssertionError
      | Some package_env \<Rightarrow>
          (let path_list = (case path package_env of None \<Rightarrow> [] | Some l \<Rightarrow> l);
               result1 = result\<lparr>paths := paths result @ path_list\<rparr>;
               vars_sec = (case vars_section package_env of None \<Rightarrow> [] | Some d \<Rightarrow> d);
               result2 = append_vars vars_sec result1
           in collect_env_mutations rest result2))"

definition get_env_mutations_for_packages :: "resources \<Rightarrow> error + EnvMutations" where
  "get_env_mutations_for_packages res =
     collect_env_mutations (platform_packages res) \<lparr>paths = [], vars = []\<rparr>"

subsection \<open>Dumping and applying the mutations\<close>

definition dump_path_line :: "bool \<Rightarrow> string \<Rightarrow> line" where
  "dump_path_line windows p =
     (let styled_name = Style ''PATH'' (Some ''magenta'')
      in if windows then [Txt ''@set '', styled_name, Txt (''='' @ p @ '';%PATH%'')]
         else [styled_name, Txt (''='' @ [CHR 0x22] @ p @ '':$PATH'' @ [CHR 0x22])])"

definition dump_var_line :: "bool \<Rightarrow> string \<times> string \<Rightarrow> line" where
  "dump_var_line windows nv =
     (let styled_name = Style (fst nv) (Some ''magenta'')
      in if windows then [Txt ''@set '', styled_name, Txt (''='' @ snd nv)]
         else [styled_name, Txt (''='' @ [CHR 0x22] @ snd nv @ [CHR 0x22])])"

definition dump_env_mutations :: "host \<Rightarrow> EnvMutations \<Rightarrow> state \<Rightarrow> state" where
  "dump_env_mutations h mutations st =
     (let st1 = secho ''Envirnment settings:'' (Some ''magenta'') st;
          windows = is_windows h;
          st2 = foldl (\<lambda>s p. echo (dump_path_line windows p) s) st1 (rev (paths mutations))
      in foldl (\<lambda>s nv. echo (dump_var_line windows nv) s) st2 (vars mutations))"

text \<open>\<^verbatim>\<open>sep.join(items)\<close>.\<close>

fun str_join :: "string \<Rightarrow> string list \<Rightarrow> string" where
  "str_join sep [] = []"
| "str_join sep [x] = x"
| "str_join sep (x # y # ys) = x @ sep @ str_join sep (y # ys)"

text \<open>\<^verbatim>\<open>os.environ[name] = value\<close>: nothing is stored when the assignment raises.\<close>

definition environ_setitem ::
  "host \<Rightarrow> string \<Rightarrow> string \<Rightarrow> state \<Rightarrow> (error + unit) \<times> state" where
  "environ_setitem h name value st =
     (case setenv_error h name value of
        Some e \<Rightarrow> (Inl e, st)
      | None \<Rightarrow> (Inr (), st\<lparr>environ := (environ st)(name \<mapsto> value)\<rparr>))"

text \<open>
  The loop over \<^verbatim>\<open>mutations.vars\<close>: an assignment that raises ends it, and the
  assignments made before stay.
\<close>

fun apply_vars :: "host \<Rightarrow> (string \<times> string) list \<Rightarrow> state \<Rightarrow> (error + unit) \<times> state" where
  "apply_vars h [] st = (Inr (), st)"
| "apply_vars h ((name, value) # rest) st =
     (case environ_setitem h name value st of
        (Inl e, st1) \<Rightarrow> (Inl e, st1)
      | (Inr u, st1) \<Rightarrow> apply_vars h rest st1)"

definition apply_env_mutations ::
  "host \<Rightarrow> EnvMutations \<Rightarrow> state \<Rightarrow> (error + unit) \<times> state" where
  "apply_env_mutations h mutations st =
     (case environ st ''PATH'' of
        None \<Rightarrow> (Inl (KeyError ''PATH''), st)
      | Some old_val \<Rightarrow>
          (let items = paths mutations @ [old_val];
               new_val = str_join (pathsep h) items
           in case environ_setitem h ''PATH'' new_val st of
                (Inl e, st1) \<Rightarrow> (Inl e, st1)
              | (Inr u, st1) \<Rightarrow> apply_vars h (vars mutations) st1))"

subsection \<open>Setting the environment once\<close>

definition set_env_for_packages ::
  "host \<Rightarrow> resources \<Rightarrow> bool \<Rightarrow> state \<Rightarrow> (error + unit) \<times> state" where
  "set_env_for_packages h res verbose st =
     (case get_env_mutations_for_packages res of
        Inl e \<Rightarrow> (Inl e, st)
      | Inr mutations \<Rightarrow>
          (let st1 = (if verbose then dump_env_mutations h mutations st else st)
           in if \<not> ENV_ALREADY_SET_FLAG st1 then
                (case apply_env_mutations h mutations st1 of
                   (Inl e, st2) \<Rightarrow> (Inl e, st2)
                 | (Inr u, st2) \<Rightarrow>
                     (let st3 = st2\<lparr>ENV_ALREADY_SET_FLAG := True\<rparr>
                      in (Inr (),
                          if \<not> verbose then secho ''Setting the envinronment.'' None st3
                          else st3)))
              else (Inr (), st1)))"

subsection \<open>Checking the required packages\<close>

definition quoted :: "string \<Rightarrow> string" where
  "quoted s = [CHR 0x27] @ s @ [CHR 0x27]"

definition install_instructions :: "string \<Rightarrow> string" where
  "install_instructions package_name =
     ''Please run:'' @ [CHR 0x0A]
     @ ''   apio packages --install --force '' @ package_name @ [CHR 0x0A]
     @ ''or:'' @ [CHR 0x0A]
     @ ''   apio packages --install --force''"

definition show_package_install_instructions :: "string \<Rightarrow> state \<Rightarrow> state" where
  "show_package_install_instructions package_name st =
     secho (install_instructions package_name) (Some ''yellow'') st"

text \<open>
  The constraint is parsed outside the \<^verbatim>\<open>try\<close>, so whatever \<open>SimpleSpec\<close> raises
  escapes; of what \<open>Version\<close> raises, only a \<open>ValueError\<close> is caught.
\<close>

definition version_matches ::
  "('s, 'v) semantic_version \<Rightarrow> string \<Rightarrow> string \<Rightarrow> error + bool" where
  "version_matches lib current_version spec_version =
     (case SimpleSpec lib spec_version of
        Inl e \<Rightarrow> Inl e
      | Inr spec \<Rightarrow>
          (case Version lib current_version of
             Inl (ValueError m) \<Rightarrow> Inr False
           | Inl e \<Rightarrow> Inl e
           | Inr semver \<Rightarrow> Inr (contains lib spec semver)))"

definition not_installed_message :: "string \<Rightarrow> string" where
  "not_installed_message package_name =
     ''Error: package '' @ quoted package_name @ '' is not installed.''"

definition version_mismatch_message :: "string \<Rightarrow> string \<Rightarrow> string \<Rightarrow> string" where
  "version_mismatch_message package_name current_version spec_version =
     ''Error: package '' @ quoted package_name @ '' version '' @ current_version
     @ '' does not'' @ [CHR 0x0A]
     @ ''match the requirement for version '' @ spec_version @ ''.''"

definition dir_missing_message :: "string \<Rightarrow> string" where
  "dir_missing_message package_name =
     ''Error: package '' @ quoted package_name @ '' is installed but missing''"

text \<open>Print an error in red, then the install instructions, then \<^verbatim>\<open>sys.exit(1)\<close>.\<close>

definition fail_with :: "string \<Rightarrow> string \<Rightarrow> state \<Rightarrow> (error + unit) \<times> state" where
  "fail_with message package_name st =
     (Inl (SystemExit 1),
      show_package_install_instructions package_name (secho message (Some ''red'') st))"

definition check_required_package ::
  "('s, 'v) semantic_version \<Rightarrow> host \<Rightarrow> string \<Rightarrow> string option \<Rightarrow> string \<Rightarrow> resources
     \<Rightarrow> state \<Rightarrow> (error + unit) \<times> state" where
  "check_required_package lib h package_name current_version spec_version res st =
     (case current_version of
        None \<Rightarrow> fail_with (not_installed_message package_name) package_name st
      | Some cv \<Rightarrow>
          (case version_matches lib cv spec_version of
             Inl e \<Rightarrow> (Inl e, st)
           | Inr False \<Rightarrow>
               fail_with (version_mismatch_message package_name cv spec_version)
                 package_name st
           | Inr True \<Rightarrow>
               (case get_package_dir res package_name of
                  None \<Rightarrow> (Inr (), st)
                | Some package_dir \<Rightarrow>
                    if \<not> is_dir h package_dir
                    then fail_with (dir_missing_message package_name) package_name st
                    else (Inr (), st))))"

text \<open>\<^verbatim>\<open>installed_packages.get(package_name, {}).get("version", None)\<close>.\<close>

definition get_current_version ::
  "(string \<rightharpoonup> (string \<rightharpoonup> string)) \<Rightarrow> string \<Rightarrow> string option" where
  "get_current_version installed_packages package_name =
     (case installed_packages package_name of None \<Rightarrow> None | Some d \<Rightarrow> d ''version'')"

text \<open>\<^verbatim>\<open>spec_packages.get(package_name, "")\<close>.\<close>

definition get_spec_version :: "(string \<rightharpoonup> string) \<Rightarrow> string \<Rightarrow> string" where
  "get_spec_version spec_packages package_name =
     (case spec_packages package_name of None \<Rightarrow> [] | Some s \<Rightarrow> s)"

definition unknown_package_message :: "string \<Rightarrow> string" where
  "unknown_package_message package_name = ''Unknown package named ['' @ package_name @ '']''"

text \<open>
  The loop over \<^verbatim>\<open>required_packages_names\<close>. \<open>spec_packages\<close> is
  \<^verbatim>\<open>resources.distribution.get("packages")\<close>, which is \<^verbatim>\<open>None\<close> when the key is absent;
  calling \<^verbatim>\<open>.get\<close> on it raises then.
\<close>

fun check_packages_loop ::
  "('s, 'v) semantic_version \<Rightarrow> host \<Rightarrow> resources \<Rightarrow> (string \<rightharpoonup> (string \<rightharpoonup> string))
     \<Rightarrow> (string \<rightharpoonup> string) option \<Rightarrow> string list \<Rightarrow> state \<Rightarrow> (error + unit) \<times> state" where
  "check_packages_loop lib h res installed_packages spec_packages [] st = (Inr (), st)"
| "check_packages_loop lib h res installed_packages spec_packages (package_name # rest) st =
     (if map_of (all_packages res) package_name = None then
        (Inl (RuntimeError (unknown_package_message package_name)), st)
      else if map_of (platform_packages res) package_name = None then
        check_packages_loop lib h res installed_packages spec_packages rest st
      else
        (let current_version = get_current_version installed_packages package_name
         in case spec_packages of
              None \<Rightarrow>
                (Inl (AttributeError
                   (quoted ''NoneType'' @ '' object has no attribute '' @ quoted ''get'')), st)
            | Some sp \<Rightarrow>
                (let spec_version = get_spec_version sp package_name
                 in case check_required_package lib h package_name current_version
                           spec_version res st of
                      (Inl e, st1) \<Rightarrow> (Inl e, st1)
                    | (Inr u, st1) \<Rightarrow>
                        check_packages_loop lib h res installed_packages spec_packages
                          rest st1)))"

definition check_required_packages ::
  "('s, 'v) semantic_version \<Rightarrow> host \<Rightarrow> profile \<Rightarrow> string list \<Rightarrow> resources
     \<Rightarrow> state \<Rightarrow> (error + unit) \<times> state" where
  "check_required_packages lib h prof required_packages_names res st =
     (let installed_packages = packages prof;
          spec_packages = distribution res ''packages''
      in check_packages_loop lib h res installed_packages spec_packages
           required_packages_names st)"

subsection \<open>Vocabulary of the properties\<close>

text \<open>What a registry entry declares: its path entries and its variables, in order.\<close>

definition package_paths :: "string \<times> package_config \<Rightarrow> string list" where
  "package_paths p =
     (case env (snd p) of
        None \<Rightarrow> []
      | Some e \<Rightarrow> (case path e of None \<Rightarrow> [] | Some l \<Rightarrow> l))"

definition package_vars :: "string \<times> package_config \<Rightarrow> (string \<times> string) list" where
  "package_vars p =
     (case env (snd p) of
        None \<Rightarrow> []
      | Some e \<Rightarrow> (case vars_section e of None \<Rightarrow> [] | Some d \<Rightarrow> d))"

definition has_env :: "string \<times> package_config \<Rightarrow> bool" where
  "has_env p = (env (snd p) \<noteq> None)"

text \<open>The host accepts the assignment of a value to a name.\<close>

definition accepts :: "host \<Rightarrow> string \<times> string \<Rightarrow> bool" where
  "accepts h nv = (setenv_error h (fst nv) (snd nv) = None)"

text \<open>
  A process that calls the entry point several times, each time with its own
  resources and verbosity, and goes on after a call that raised.
\<close>

definition set_env_repeatedly :: "host \<Rightarrow> (resources \<times> bool) list \<Rightarrow> state \<Rightarrow> state" where
  "set_env_repeatedly h calls st =
     foldl (\<lambda>s call. snd (set_env_for_packages h (fst call) (snd call) s)) st calls"

text \<open>The state after an error line in red and the install instructions in yellow.\<close>

definition reported :: "string \<Rightarrow> string \<Rightarrow> state \<Rightarrow> state" where
  "reported message package_name st =
     st\<lparr>stdout := stdout st @ [[Style message (Some ''red'')],
                               [Style (install_instructions package_name) (Some ''yellow'')]]\<rparr>"

text \<open>
  The user-level checks of one package, in the order of the code: the message of the
  first check that fails, if any. An exception of the version library is no user error.
\<close>

definition user_error ::
  "('s, 'v) semantic_version \<Rightarrow> host \<Rightarrow> resources \<Rightarrow> string \<Rightarrow> string option \<Rightarrow> string
     \<Rightarrow> string option" where
  "user_error lib h res package_name current_version spec_version =
     (case current_version of
        None \<Rightarrow> Some (not_installed_message package_name)
      | Some cv \<Rightarrow>
          (case version_matches lib cv spec_version of
             Inl e \<Rightarrow> None
           | Inr False \<Rightarrow> Some (version_mismatch_message package_name cv spec_version)
           | Inr True \<Rightarrow>
               (case get_package_dir res package_name of
                  None \<Rightarrow> None
                | Some package_dir \<Rightarrow>
                    if is_dir h package_dir then None
                    else Some (dir_missing_message package_name))))"

subsection \<open>A small instance of the version library\<close>

text \<open>
  The properties below hold for every implementation of \<open>SimpleSpec\<close>, \<open>Version\<close> and
  \<open>contains\<close>. To run the checks on concrete inputs, \<open>plain_semver\<close> implements a
  fragment of \<^verbatim>\<open>semantic_version\<close>: versions \<^verbatim>\<open>MAJOR.MINOR.PATCH\<close> of numbers
  without leading zeros, and constraints made of one comparison operator followed by
  such a version. Any other string is rejected with a \<open>ValueError\<close>: so are the version
  \<^verbatim>\<open>not-a-version\<close> and the empty constraint, which the library rejects too (the
  pattern of a constraint block demands a major number).
\<close>

definition digit_val :: "char \<Rightarrow> nat option" where
  "digit_val c =
     map_of [(CHR ''0'', 0), (CHR ''1'', 1), (CHR ''2'', 2), (CHR ''3'', 3), (CHR ''4'', 4),
             (CHR ''5'', 5), (CHR ''6'', 6), (CHR ''7'', 7), (CHR ''8'', 8), (CHR ''9'', 9)] c"

fun parse_digits :: "string \<Rightarrow> nat \<Rightarrow> nat option" where
  "parse_digits [] acc = Some acc"
| "parse_digits (c # cs) acc =
     (case digit_val c of None \<Rightarrow> None | Some d \<Rightarrow> parse_digits cs (10 * acc + d))"

definition parse_number :: "string \<Rightarrow> nat option" where
  "parse_number s =
     (if s = [] \<or> (1 < length s \<and> hd s = CHR ''0'') then None else parse_digits s 0)"

fun split_dots :: "string \<Rightarrow> string list" where
  "split_dots [] = [[]]"
| "split_dots (c # cs) =
     (if c = CHR ''.'' then [] # split_dots cs
      else (case split_dots cs of [] \<Rightarrow> [[c]] | w # ws \<Rightarrow> (c # w) # ws))"

definition parse_plain_version :: "string \<Rightarrow> (nat \<times> nat \<times> nat) option" where
  "parse_plain_version s =
     (case map parse_number (split_dots s) of
        [Some major, Some minor, Some patch] \<Rightarrow> Some (major, minor, patch)
      | _ \<Rightarrow> None)"

definition parse_plain_block :: "string \<Rightarrow> (string \<times> nat \<times> nat \<times> nat) option" where
  "parse_plain_block s =
     (if take 2 s \<in> set [''>='', ''<='', ''=='', ''!='']
      then map_option (Pair (take 2 s)) (parse_plain_version (drop 2 s))
      else if take 1 s \<in> set [''>'', ''<'']
      then map_option (Pair (take 1 s)) (parse_plain_version (drop 1 s))
      else None)"

fun version_less :: "nat \<times> nat \<times> nat \<Rightarrow> nat \<times> nat \<times> nat \<Rightarrow> bool" where
  "version_less (a, b, c) (x, y, z) = (a < x \<or> a = x \<and> (b < y \<or> b = y \<and> c < z))"

definition plain_contains :: "string \<times> nat \<times> nat \<times> nat \<Rightarrow> nat \<times> nat \<times> nat \<Rightarrow> bool" where
  "plain_contains spec v =
     (let op = fst spec; w = snd spec
      in if op = ''>='' then \<not> version_less v w
         else if op = ''<='' then \<not> version_less w v
         else if op = ''=='' then v = w
         else if op = ''!='' then v \<noteq> w
         else if op = ''>'' then version_less w v
         else version_less v w)"

definition plain_semver ::
  "(string \<times> nat \<times> nat \<times> nat, nat \<times> nat \<times> nat) semantic_version" where
  "plain_semver =
     \<lparr>SimpleSpec = (\<lambda>s. case parse_plain_block s of
                          None \<Rightarrow> Inl (ValueError (''Invalid simple block '' @ quoted s))
                        | Some spec \<Rightarrow> Inr spec),
      Version = (\<lambda>s. case parse_plain_version s of
                       None \<Rightarrow> Inl (ValueError (''Invalid version string: '' @ quoted s))
                     | Some v \<Rightarrow> Inr v),
      contains = plain_contains\<rparr>"

subsection \<open>An example installation\<close>

text \<open>
  Four packages for this platform and a fifth, \<^verbatim>\<open>drivers\<close>, for another one. The
  distribution gives no constraint for \<^verbatim>\<open>gtkwave\<close>. Installed are \<^verbatim>\<open>oss\<close>,
  \<^verbatim>\<open>examples\<close> (whose directory is gone) and \<^verbatim>\<open>gtkwave\<close>; \<^verbatim>\<open>graphviz\<close> is not.
\<close>

text \<open>
  The assignments that CPython rejects on a POSIX host: a NUL byte in the name or the
  value, then an empty name or a name with an equals sign.
\<close>

definition posix_setenv_error :: "string \<Rightarrow> string \<Rightarrow> error option" where
  "posix_setenv_error name value =
     (if CHR 0x00 \<in> set name \<or> CHR 0x00 \<in> set value
      then Some (ValueError ''embedded null byte'')
      else if name = [] \<or> CHR ''='' \<in> set name
      then Some (ValueError ''illegal environment variable name'')
      else None)"

definition example_host :: host where
  "example_host =
     \<lparr>pathsep = '':'', is_windows = False,
      is_dir = (\<lambda>p. p \<in> set [''/pk/oss'', ''/pk/gtkwave'']),
      setenv_error = posix_setenv_error\<rparr>"

definition example_state :: state where
  "example_state =
     \<lparr>environ = [''PATH'' \<mapsto> ''/bin''], ENV_ALREADY_SET_FLAG = False, stdout = []\<rparr>"

definition oss_config :: package_config where
  "oss_config =
     \<lparr>env = Some \<lparr>path = Some [''/pk/oss/bin'', ''/pk/oss/lib''],
                  vars_section = Some [(''IVL'', ''/pk/oss/ivl''), (''TOOL'', ''oss'')]\<rparr>\<rparr>"

definition examples_config :: package_config where
  "examples_config = \<lparr>env = Some \<lparr>path = None, vars_section = None\<rparr>\<rparr>"

definition gtkwave_config :: package_config where
  "gtkwave_config =
     \<lparr>env = Some \<lparr>path = Some [''/pk/gtkwave/bin''],
                  vars_section = Some [(''TOOL'', ''gtkwave'')]\<rparr>\<rparr>"

definition graphviz_config :: package_config where
  "graphviz_config = \<lparr>env = Some \<lparr>path = Some [''/pk/graphviz/bin''], vars_section = None\<rparr>\<rparr>"

definition drivers_config :: package_config where
  "drivers_config = \<lparr>env = Some \<lparr>path = Some [], vars_section = Some []\<rparr>\<rparr>"

definition example_resources :: resources where
  "example_resources =
     \<lparr>platform_packages =
        [(''oss'', oss_config), (''examples'', examples_config),
         (''gtkwave'', gtkwave_config), (''graphviz'', graphviz_config)],
      all_packages =
        [(''oss'', oss_config), (''examples'', examples_config),
         (''gtkwave'', gtkwave_config), (''graphviz'', graphviz_config),
         (''drivers'', drivers_config)],
      distribution =
        [''packages'' \<mapsto>
           [''oss'' \<mapsto> ''>=0.1.0'', ''examples'' \<mapsto> ''>=0.0.35'',
            ''graphviz'' \<mapsto> ''>=0.0.2'', ''drivers'' \<mapsto> ''>=1.0.0'']],
      get_package_dir = (\<lambda>name. if name = ''drivers'' then None else Some (''/pk/'' @ name))\<rparr>"

definition example_profile :: profile where
  "example_profile =
     \<lparr>packages =
        [''oss'' \<mapsto> [''version'' \<mapsto> ''0.1.2''],
         ''examples'' \<mapsto> [''version'' \<mapsto> ''0.0.35''],
         ''gtkwave'' \<mapsto> [''version'' \<mapsto> ''1.0.0'']]\<rparr>"

text \<open>A registry whose second entry has no \<^verbatim>\<open>env\<close> section.\<close>

definition malformed_resources :: resources where
  "malformed_resources =
     example_resources\<lparr>platform_packages :=
       [(''oss'', oss_config), (''broken'', \<lparr>env = None\<rparr>), (''gtkwave'', gtkwave_config)]\<rparr>"

text \<open>A registry whose only package declares a variable with an equals sign in its name.\<close>

definition leaky_resources :: resources where
  "leaky_resources =
     example_resources\<lparr>platform_packages :=
       [(''oss'', \<lparr>env = Some \<lparr>path = Some [''/pk/oss/bin''],
                               vars_section = Some [(''IVL=lib'', ''/pk/oss/ivl'')]\<rparr>\<rparr>)]\<rparr>"

definition example_mutations :: EnvMutations where
  "example_mutations =
     \<lparr>paths = [''/pk/oss/bin'', ''/pk/oss/lib'', ''/pk/gtkwave/bin'', ''/pk/graphviz/bin''],
      vars = [(''IVL'', ''/pk/oss/ivl''), (''TOOL'', ''oss''), (''TOOL'', ''gtkwave'')]\<rparr>"

section \<open>Properties of the environment composer\<close>

subsection \<open>The loops in closed form\<close>

lemma append_vars_eq: "append_vars vs result = result\<lparr>vars := vars result @ vs\<rparr>"
  by (induction vs arbitrary: result) auto

lemma collect_env_mutations_eq:
  "collect_env_mutations ps result =
     (if list_all has_env ps
      then Inr \<lparr>paths = paths result @ concat (map package_paths ps),
                vars = vars result @ concat (map package_vars ps)\<rparr>
      else Inl AssertionError)"
proof (induction ps arbitrary: result)
  case Nil
  show ?case by simp
next
  case (Cons p ps)
  obtain name package_config where p: "p = (name, package_config)"
    by (cases p)
  show ?case
  proof (cases "env package_config")
    case None
    then show ?thesis by (simp add: p has_env_def)
  next
    case (Some e)
    have pp: "package_paths (name, package_config) = (case path e of None \<Rightarrow> [] | Some l \<Rightarrow> l)"
      by (simp add: package_paths_def Some)
    have pv: "package_vars (name, package_config) =
                (case vars_section e of None \<Rightarrow> [] | Some d \<Rightarrow> d)"
      by (simp add: package_vars_def Some)
    have he: "has_env (name, package_config)"
      by (simp add: has_env_def Some)
    show ?thesis
      by (simp add: p Cons.IH Some pp pv he append_vars_eq)
  qed
qed

lemma get_env_mutations_for_packages_eq:
  "get_env_mutations_for_packages res =
     (if list_all has_env (platform_packages res)
      then Inr \<lparr>paths = concat (map package_paths (platform_packages res)),
                vars = concat (map package_vars (platform_packages res))\<rparr>
      else Inl AssertionError)"
  by (simp add: get_env_mutations_for_packages_def collect_env_mutations_eq)

subsection \<open>Assignments to the environment\<close>

lemma environ_setitem_accepted:
  "accepts h (name, value) \<Longrightarrow>
     environ_setitem h name value st = (Inr (), st\<lparr>environ := (environ st)(name \<mapsto> value)\<rparr>)"
  by (simp add: environ_setitem_def accepts_def)

lemma environ_setitem_rejected:
  "\<not> accepts h (name, value) \<Longrightarrow> \<exists>e. environ_setitem h name value st = (Inl e, st)"
  by (auto simp: environ_setitem_def accepts_def)

text \<open>When every assignment is accepted, the loop returns and the last value of a name stays.\<close>

lemma apply_vars_accepted:
  "list_all (accepts h) vs \<Longrightarrow>
     apply_vars h vs st = (Inr (), st\<lparr>environ := environ st ++ map_of (rev vs)\<rparr>)"
proof (induction vs arbitrary: st)
  case Nil
  show ?case by simp
next
  case (Cons nv vs)
  obtain name val where nv: "nv = (name, val)"
    by (cases nv)
  have "accepts h (name, val)" and rest: "list_all (accepts h) vs"
    using Cons.prems by (simp_all add: nv)
  then show ?case
    by (simp add: nv environ_setitem_accepted Cons.IH [OF rest] map_add_def fun_eq_iff
        split: option.splits)
qed

text \<open>The loop returns exactly when every assignment is accepted.\<close>

lemma apply_vars_returns_iff:
  "(fst (apply_vars h vs st) = Inr ()) = list_all (accepts h) vs"
proof (induction vs arbitrary: st)
  case Nil
  show ?case by simp
next
  case (Cons nv vs)
  obtain name val where nv: "nv = (name, val)"
    by (cases nv)
  show ?case
  proof (cases "accepts h (name, val)")
    case True
    then show ?thesis
      by (simp add: nv environ_setitem_accepted Cons.IH)
  next
    case False
    then obtain e where "environ_setitem h name val st = (Inl e, st)"
      using environ_setitem_rejected by blast
    with False show ?thesis
      by (simp add: nv)
  qed
qed

text \<open>Whether it returns or raises, the loop touches only the names it is given.\<close>

lemma apply_vars_other_name:
  "x \<notin> fst ` set vs \<Longrightarrow> environ (snd (apply_vars h vs st)) x = environ st x"
proof (induction vs arbitrary: st)
  case Nil
  show ?case by simp
next
  case (Cons nv vs)
  obtain name val where nv: "nv = (name, val)"
    by (cases nv)
  have x: "x \<noteq> name" and rest: "x \<notin> fst ` set vs"
    using Cons.prems by (auto simp: nv)
  show ?case
  proof (cases "setenv_error h name val")
    case None
    then show ?thesis
      using x by (simp add: nv environ_setitem_def Cons.IH [OF rest])
  next
    case (Some e)
    then show ?thesis
      by (simp add: nv environ_setitem_def)
  qed
qed

lemma apply_vars_flag:
  "ENV_ALREADY_SET_FLAG (snd (apply_vars h vs st)) = ENV_ALREADY_SET_FLAG st"
proof (induction vs arbitrary: st)
  case Nil
  show ?case by simp
next
  case (Cons nv vs)
  obtain name val where nv: "nv = (name, val)"
    by (cases nv)
  show ?case
    by (cases "setenv_error h name val") (simp_all add: nv environ_setitem_def Cons.IH)
qed

lemma apply_env_mutations_accepted:
  assumes "environ st ''PATH'' = Some old_val"
    and "accepts h (''PATH'', str_join (pathsep h) (paths m @ [old_val]))"
    and "list_all (accepts h) (vars m)"
  shows "apply_env_mutations h m st =
           (Inr (),
            st\<lparr>environ := (environ st)(''PATH'' \<mapsto> str_join (pathsep h) (paths m @ [old_val]))
                             ++ map_of (rev (vars m))\<rparr>)"
  using assms
  by (simp add: apply_env_mutations_def environ_setitem_accepted apply_vars_accepted)

lemma example_mutations_composed:
  "get_env_mutations_for_packages example_resources = Inr example_mutations"
  by (simp add: get_env_mutations_for_packages_def example_resources_def example_mutations_def
      oss_config_def examples_config_def gtkwave_config_def graphviz_config_def)

lemma example_package_paths:
  "concat (map package_paths (platform_packages example_resources)) =
     [''/pk/oss/bin'', ''/pk/oss/lib'', ''/pk/gtkwave/bin'', ''/pk/graphviz/bin'']"
  by (simp add: package_paths_def example_resources_def
      oss_config_def examples_config_def gtkwave_config_def graphviz_config_def)

lemma example_PATH_accepted:
  "accepts example_host
     (''PATH'', ''/pk/oss/bin:/pk/oss/lib:/pk/gtkwave/bin:/pk/graphviz/bin:/bin'')"
  by (simp add: accepts_def example_host_def posix_setenv_error_def)

lemma example_vars_accepted: "list_all (accepts example_host) (vars example_mutations)"
  by (simp add: accepts_def example_host_def posix_setenv_error_def example_mutations_def)

lemma example_applied:
  "apply_env_mutations example_host example_mutations example_state =
     (Inr (),
      example_state\<lparr>environ :=
        [''PATH'' \<mapsto> ''/pk/oss/bin:/pk/oss/lib:/pk/gtkwave/bin:/pk/graphviz/bin:/bin'',
         ''IVL'' \<mapsto> ''/pk/oss/ivl'', ''TOOL'' \<mapsto> ''gtkwave'']\<rparr>)"
proof -
  have a: "environ example_state ''PATH'' = Some ''/bin''"
    by (simp add: example_state_def)
  have b: "str_join (pathsep example_host) (paths example_mutations @ [''/bin'']) =
             ''/pk/oss/bin:/pk/oss/lib:/pk/gtkwave/bin:/pk/graphviz/bin:/bin''"
    by (simp add: example_host_def example_mutations_def)
  have c: "accepts example_host
             (''PATH'', str_join (pathsep example_host) (paths example_mutations @ [''/bin'']))"
    by (simp only: b example_PATH_accepted)
  have d: "environ example_state = [''PATH'' \<mapsto> ''/bin'']"
    by (simp add: example_state_def)
  show ?thesis
    unfolding apply_env_mutations_accepted [OF a c example_vars_accepted] b d
    by (simp add: example_mutations_def map_add_def fun_eq_iff)
qed

lemma example_PATH_applied:
  "environ (snd (apply_env_mutations example_host example_mutations example_state)) ''PATH'' =
     Some ''/pk/oss/bin:/pk/oss/lib:/pk/gtkwave/bin:/pk/graphviz/bin:/bin''"
  by (simp add: example_applied)

subsection \<open>C1: the order of the path entries\<close>

text \<open>
  C1, as stated: the final PATH is the reversed list of the declared path entries,
  followed by the original PATH. The code joins the entries in the order of the registry,
  without reversing them. In the example installation the first entry of the final PATH
  is the first path of the first package, where the reversed list would put the path of
  the last package.
\<close>

theorem path_reversed_counterexample:
  "get_env_mutations_for_packages example_resources = Inr example_mutations
   \<and> environ example_state ''PATH'' = Some ''/bin''
   \<and> environ (snd (apply_env_mutations example_host example_mutations example_state)) ''PATH''
       = Some ''/pk/oss/bin:/pk/oss/lib:/pk/gtkwave/bin:/pk/graphviz/bin:/bin''
   \<and> environ (snd (apply_env_mutations example_host example_mutations example_state)) ''PATH''
       \<noteq> Some (str_join (pathsep example_host)
                 (rev (concat (map package_paths (platform_packages example_resources)))
                  @ [''/bin'']))"
proof -
  have "str_join (pathsep example_host)
          (rev (concat (map package_paths (platform_packages example_resources))) @ [''/bin''])
        = ''/pk/graphviz/bin:/pk/gtkwave/bin:/pk/oss/lib:/pk/oss/bin:/bin''"
    by (simp add: example_package_paths) (simp add: example_host_def)
  then show ?thesis
    by (simp add: example_mutations_composed example_PATH_applied)
       (simp add: example_state_def)
qed

text \<open>
  C1, amended: when the registry composes to the mutations \<open>m\<close>, the environment has
  a PATH, no package declares a variable named PATH and the host accepts the new value
  of PATH, the final PATH is the path entries of the packages, in the order of the
  registry and each package's entries in their declared order, followed by the original
  PATH, joined by the path separator. So the entries of the package registered first
  come first. The application returns exactly when the host accepts the assignment of
  every declared variable; the PATH is as stated also when it does not.
\<close>

theorem path_in_registry_order:
  assumes "get_env_mutations_for_packages res = Inr m"
    and "environ st ''PATH'' = Some old_val"
    and "''PATH'' \<notin> fst ` set (vars m)"
    and "accepts h (''PATH'', str_join (pathsep h)
                      (concat (map package_paths (platform_packages res)) @ [old_val]))"
  shows "(fst (apply_env_mutations h m st) = Inr ()) = list_all (accepts h) (vars m) \<and>
         environ (snd (apply_env_mutations h m st)) ''PATH'' =
           Some (str_join (pathsep h)
                   (concat (map package_paths (platform_packages res)) @ [old_val]))"
proof -
  let ?new = "str_join (pathsep h) (concat (map package_paths (platform_packages res)) @ [old_val])"
  let ?st1 = "st\<lparr>environ := (environ st)(''PATH'' \<mapsto> ?new)\<rparr>"
  have m: "paths m = concat (map package_paths (platform_packages res))"
    using assms(1) by (auto simp: get_env_mutations_for_packages_eq split: if_splits)
  have ap: "apply_env_mutations h m st = apply_vars h (vars m) ?st1"
    using assms(2) environ_setitem_accepted [OF assms(4), of st]
    by (simp add: apply_env_mutations_def m)
  have "environ (snd (apply_vars h (vars m) ?st1)) ''PATH'' = environ ?st1 ''PATH''"
    using assms(3) by (rule apply_vars_other_name)
  then show ?thesis
    by (simp add: ap apply_vars_returns_iff)
qed

theorem path_in_registry_order_witness:
  "get_env_mutations_for_packages example_resources = Inr example_mutations
   \<and> environ example_state ''PATH'' = Some ''/bin''
   \<and> ''PATH'' \<notin> fst ` set (vars example_mutations)
   \<and> accepts example_host
        (''PATH'', ''/pk/oss/bin:/pk/oss/lib:/pk/gtkwave/bin:/pk/graphviz/bin:/bin'')
   \<and> list_all (accepts example_host) (vars example_mutations)
   \<and> fst (apply_env_mutations example_host example_mutations example_state) = Inr ()
   \<and> environ (snd (apply_env_mutations example_host example_mutations example_state)) ''PATH''
       = Some (str_join '':'' [''/pk/oss/bin'', ''/pk/oss/lib'', ''/pk/gtkwave/bin'',
                               ''/pk/graphviz/bin'', ''/bin''])"
proof -
  have a: "environ example_state ''PATH'' = Some ''/bin''"
    by (simp add: example_state_def)
  have b: "''PATH'' \<notin> fst ` set (vars example_mutations)"
    by (simp add: example_mutations_def)
  have c: "str_join (pathsep example_host)
             (concat (map package_paths (platform_packages example_resources)) @ [''/bin''])
           = ''/pk/oss/bin:/pk/oss/lib:/pk/gtkwave/bin:/pk/graphviz/bin:/bin''"
    by (simp add: example_package_paths) (simp add: example_host_def)
  have d: "accepts example_host
             (''PATH'', str_join (pathsep example_host)
                (concat (map package_paths (platform_packages example_resources)) @ [''/bin'']))"
    by (simp only: c example_PATH_accepted)
  show ?thesis
    using path_in_registry_order [OF example_mutations_composed a b d] a b
      example_PATH_accepted example_vars_accepted
    by (simp add: example_mutations_composed c)
qed

subsection \<open>C7: a package without an env section\<close>

lemma composition_succeeds_iff:
  "(\<exists>m. get_env_mutations_for_packages res = Inr m) \<longleftrightarrow>
     list_all has_env (platform_packages res)"
  by (simp add: get_env_mutations_for_packages_eq)

text \<open>
  C7: if some package of the registry has no \<^verbatim>\<open>env\<close> section, composing the mutations
  fails the assertion and returns no mutations, whatever the other packages declare;
  the entry point passes the error on before it prints or applies anything. An empty
  section is enough (see \<open>composition_succeeds_iff\<close>).
\<close>

theorem missing_env_section_aborts:
  assumes "p \<in> set (platform_packages res)" and "env (snd p) = None"
  shows "get_env_mutations_for_packages res = Inl AssertionError \<and>
         set_env_for_packages h res verbose st = (Inl AssertionError, st)"
proof -
  have "\<not> list_all has_env (platform_packages res)"
    using assms by (auto simp: list_all_iff has_env_def)
  then have "get_env_mutations_for_packages res = Inl AssertionError"
    by (simp add: get_env_mutations_for_packages_eq)
  then show ?thesis
    by (simp add: set_env_for_packages_def)
qed

theorem missing_env_section_aborts_witness:
  "(''broken'', \<lparr>env = None\<rparr>) \<in> set (platform_packages malformed_resources)
   \<and> get_env_mutations_for_packages malformed_resources = Inl AssertionError
   \<and> set_env_for_packages example_host malformed_resources False example_state
       = (Inl AssertionError, example_state)"
proof -
  have a: "(''broken'', \<lparr>env = None\<rparr>) \<in> set (platform_packages malformed_resources)"
    by (simp add: malformed_resources_def)
  have b: "env (snd (''broken'', \<lparr>env = None\<rparr>)) = None"
    by simp
  show ?thesis
    using missing_env_section_aborts [OF a b, of example_host False example_state] a
    by simp
qed

subsection \<open>C8: a variable declared by two packages\<close>

text \<open>
  C8: let \<open>p1\<close> come before \<open>p2\<close> in the registry, both declaring the variable \<open>x\<close>,
  with different values \<open>v1\<close> and \<open>v2\<close>, and let no package after \<open>p2\<close> declare \<open>x\<close>.
  Then applying the composed mutations, in an environment that has a PATH and on a host
  that accepts the assignments, succeeds and leaves \<open>x\<close> set to \<open>v2\<close>, the value of the
  later package. (A dict has each key once, hence \<open>distinct\<close>.)
\<close>

theorem later_package_wins:
  assumes "get_env_mutations_for_packages res = Inr m"
    and "environ st ''PATH'' = Some old_val"
    and "platform_packages res = pre @ p1 # mid @ p2 # post"
    and "(x, v1) \<in> set (package_vars p1)"
    and "(x, v2) \<in> set (package_vars p2)"
    and "distinct (map fst (package_vars p2))"
    and "v1 \<noteq> v2"
    and "x \<notin> fst ` set (concat (map package_vars post))"
    and "accepts h (''PATH'', str_join (pathsep h) (paths m @ [old_val]))"
    and "list_all (accepts h) (vars m)"
  shows "fst (apply_env_mutations h m st) = Inr () \<and>
         environ (snd (apply_env_mutations h m st)) x = Some v2"
proof -
  have m: "vars m = concat (map package_vars (platform_packages res))"
    using assms(1) by (auto simp: get_env_mutations_for_packages_eq split: if_splits)
  have post: "map_of (rev (concat (map package_vars post))) x = None"
    using assms(8) by (simp add: map_of_eq_None_iff)
  have "distinct (map fst (rev (package_vars p2)))"
    using assms(6) by (simp add: rev_map [symmetric])
  then have p2: "map_of (rev (package_vars p2)) x = Some v2"
    using assms(5) by (intro map_of_is_SomeI) simp_all
  have "map_of (rev (vars m)) x = Some v2"
    by (simp add: m assms(3) map_add_def post p2 split: option.splits)
  then show ?thesis
    by (simp add: apply_env_mutations_accepted [OF assms(2) assms(9) assms(10)] map_add_def)
qed

theorem later_package_wins_witness:
  "get_env_mutations_for_packages example_resources = Inr example_mutations
   \<and> environ example_state ''PATH'' = Some ''/bin''
   \<and> platform_packages example_resources =
       [] @ (''oss'', oss_config) # [(''examples'', examples_config)]
          @ (''gtkwave'', gtkwave_config) # [(''graphviz'', graphviz_config)]
   \<and> (''TOOL'', ''oss'') \<in> set (package_vars (''oss'', oss_config))
   \<and> (''TOOL'', ''gtkwave'') \<in> set (package_vars (''gtkwave'', gtkwave_config))
   \<and> ''oss'' \<noteq> ''gtkwave''
   \<and> list_all (accepts example_host) (vars example_mutations)
   \<and> environ (snd (apply_env_mutations example_host example_mutations example_state)) ''TOOL''
       = Some ''gtkwave''"
proof -
  have a: "environ example_state ''PATH'' = Some ''/bin''"
    by (simp add: example_state_def)
  have b: "platform_packages example_resources =
       [] @ (''oss'', oss_config) # [(''examples'', examples_config)]
          @ (''gtkwave'', gtkwave_config) # [(''graphviz'', graphviz_config)]"
    by (simp add: example_resources_def)
  have c: "(''TOOL'', ''oss'') \<in> set (package_vars (''oss'', oss_config))"
    by (simp add: package_vars_def oss_config_def)
  have d: "(''TOOL'', ''gtkwave'') \<in> set (package_vars (''gtkwave'', gtkwave_config))"
    by (simp add: package_vars_def gtkwave_config_def)
  have e: "distinct (map fst (package_vars (''gtkwave'', gtkwave_config)))"
    by (simp add: package_vars_def gtkwave_config_def)
  have f: "''oss'' \<noteq> ''gtkwave''"
    by simp
  have g: "''TOOL'' \<notin> fst ` set (concat (map package_vars [(''graphviz'', graphviz_config)]))"
    by (simp add: package_vars_def graphviz_config_def)
  have "str_join (pathsep example_host) (paths example_mutations @ [''/bin'']) =
          ''/pk/oss/bin:/pk/oss/lib:/pk/gtkwave/bin:/pk/graphviz/bin:/bin''"
    by (simp add: example_host_def example_mutations_def)
  then have i: "accepts example_host
             (''PATH'', str_join (pathsep example_host) (paths example_mutations @ [''/bin'']))"
    by (simp only: example_PATH_accepted)
  show ?thesis
    using later_package_wins [OF example_mutations_composed a b c d e f g i
        example_vars_accepted] a b c d example_vars_accepted
    by (simp add: example_mutations_composed)
qed

section \<open>Properties of the set-once guard\<close>

lemma foldl_echo_environ:
  "environ (foldl (\<lambda>s x. echo (f x) s) st xs) = environ st"
  by (induction xs arbitrary: st) (auto simp: echo_def)

lemma foldl_echo_flag:
  "ENV_ALREADY_SET_FLAG (foldl (\<lambda>s x. echo (f x) s) st xs) = ENV_ALREADY_SET_FLAG st"
  by (induction xs arbitrary: st) (auto simp: echo_def)

lemma secho_environ: "environ (secho msg fg st) = environ st"
  by (simp add: secho_def echo_def)

lemma secho_flag: "ENV_ALREADY_SET_FLAG (secho msg fg st) = ENV_ALREADY_SET_FLAG st"
  by (simp add: secho_def echo_def)

lemma dump_env_mutations_environ: "environ (dump_env_mutations h m st) = environ st"
  by (simp add: dump_env_mutations_def Let_def foldl_echo_environ secho_environ)

lemma dump_env_mutations_flag:
  "ENV_ALREADY_SET_FLAG (dump_env_mutations h m st) = ENV_ALREADY_SET_FLAG st"
  by (simp add: dump_env_mutations_def Let_def foldl_echo_flag secho_flag)

lemma apply_env_mutations_flag:
  "ENV_ALREADY_SET_FLAG (snd (apply_env_mutations h m st)) = ENV_ALREADY_SET_FLAG st"
proof (cases "environ st ''PATH''")
  case None
  then show ?thesis by (simp add: apply_env_mutations_def)
next
  case (Some old_val)
  show ?thesis
    by (cases "setenv_error h ''PATH'' (str_join (pathsep h) (paths m @ [old_val]))")
       (simp_all add: apply_env_mutations_def Some environ_setitem_def apply_vars_flag)
qed

text \<open>Once the flag is set, a call changes neither the environment nor the flag.\<close>

lemma set_env_when_flag_set:
  assumes "ENV_ALREADY_SET_FLAG st"
  shows "environ (snd (set_env_for_packages h res verbose st)) = environ st"
    and "ENV_ALREADY_SET_FLAG (snd (set_env_for_packages h res verbose st))"
  using assms
  by (simp_all add: set_env_for_packages_def dump_env_mutations_environ
      dump_env_mutations_flag split: sum.splits)

text \<open>A call that returns leaves the flag set.\<close>

lemma set_env_success_sets_flag:
  assumes "fst (set_env_for_packages h res verbose st) = Inr ()"
  shows "ENV_ALREADY_SET_FLAG (snd (set_env_for_packages h res verbose st))"
  using assms
  by (auto simp: set_env_for_packages_def Let_def secho_def echo_def dump_env_mutations_flag
      split: sum.splits prod.splits if_splits)

lemma set_env_repeatedly_when_flag_set:
  "ENV_ALREADY_SET_FLAG st \<Longrightarrow>
     environ (set_env_repeatedly h calls st) = environ st \<and>
     ENV_ALREADY_SET_FLAG (set_env_repeatedly h calls st)"
proof (induction calls arbitrary: st)
  case Nil
  then show ?case by (simp add: set_env_repeatedly_def)
next
  case (Cons c calls)
  let ?st1 = "snd (set_env_for_packages h (fst c) (snd c) st)"
  have "ENV_ALREADY_SET_FLAG ?st1" and "environ ?st1 = environ st"
    using Cons.prems by (simp_all add: set_env_when_flag_set)
  moreover have "set_env_repeatedly h (c # calls) st = set_env_repeatedly h calls ?st1"
    by (simp add: set_env_repeatedly_def)
  ultimately show ?case
    using Cons.IH [of ?st1] by simp
qed

text \<open>
  After a call that returned, the flag is set and no later sequence of calls, whatever
  their resources and verbosity, changes the environment; a second call with the same
  arguments leaves the PATH of the first.
\<close>

lemma environment_kept_after_return:
  assumes "fst (set_env_for_packages h res verbose st) = Inr ()"
  shows "ENV_ALREADY_SET_FLAG (snd (set_env_for_packages h res verbose st))
         \<and> environ (set_env_repeatedly h calls (snd (set_env_for_packages h res verbose st)))
             = environ (snd (set_env_for_packages h res verbose st))
         \<and> environ (snd (set_env_for_packages h res verbose
                            (snd (set_env_for_packages h res verbose st)))) ''PATH''
             = environ (snd (set_env_for_packages h res verbose st)) ''PATH''"
proof -
  have "ENV_ALREADY_SET_FLAG (snd (set_env_for_packages h res verbose st))"
    using assms by (rule set_env_success_sets_flag)
  then show ?thesis
    by (simp add: set_env_repeatedly_when_flag_set set_env_when_flag_set)
qed

subsection \<open>C3: the environment is set at most once\<close>

lemma leaky_mutations_composed:
  "get_env_mutations_for_packages leaky_resources =
     Inr \<lparr>paths = [''/pk/oss/bin''], vars = [(''IVL=lib'', ''/pk/oss/ivl'')]\<rparr>"
  by (simp add: get_env_mutations_for_packages_def leaky_resources_def)

lemma leaky_call:
  assumes "CHR 0x00 \<notin> set old_val"
  shows "set_env_for_packages example_host leaky_resources False
           (example_state\<lparr>environ := [''PATH'' \<mapsto> old_val]\<rparr>) =
         (Inl (ValueError ''illegal environment variable name''),
          example_state\<lparr>environ := [''PATH'' \<mapsto> ''/pk/oss/bin:'' @ old_val]\<rparr>)"
  using assms
  by (simp add: set_env_for_packages_def leaky_mutations_composed apply_env_mutations_def
      environ_setitem_def example_host_def posix_setenv_error_def example_state_def)

text \<open>
  C3: the environment is to be changed by \<open>set_env_for_packages\<close> at most once, however
  often it is called, so that two calls leave the PATH of one call. With a registry
  whose package declares a variable named \<^verbatim>\<open>IVL=lib\<close> the code does otherwise: the first
  call writes the PATH and then raises on the variable, before the flag is set; the
  second call finds the flag unset and prepends the same entry again.
\<close>

theorem environment_set_twice_after_failure:
  "environ example_state ''PATH'' = Some ''/bin''
   \<and> fst (set_env_for_packages example_host leaky_resources False example_state)
       = Inl (ValueError ''illegal environment variable name'')
   \<and> ENV_ALREADY_SET_FLAG
         (snd (set_env_for_packages example_host leaky_resources False example_state)) = False
   \<and> environ (snd (set_env_for_packages example_host leaky_resources False example_state))
       ''PATH'' = Some ''/pk/oss/bin:/bin''
   \<and> environ (snd (set_env_for_packages example_host leaky_resources False
                      (snd (set_env_for_packages example_host leaky_resources False
                              example_state))))
       ''PATH'' = Some ''/pk/oss/bin:/pk/oss/bin:/bin''"
proof -
  have st: "example_state = example_state\<lparr>environ := [''PATH'' \<mapsto> ''/bin'']\<rparr>"
    by (simp add: example_state_def)
  have first: "set_env_for_packages example_host leaky_resources False example_state =
     (Inl (ValueError ''illegal environment variable name''),
      example_state\<lparr>environ := [''PATH'' \<mapsto> ''/pk/oss/bin:/bin'']\<rparr>)"
    using leaky_call [of "''/bin''"] st by simp
  have second: "set_env_for_packages example_host leaky_resources False
      (example_state\<lparr>environ := [''PATH'' \<mapsto> ''/pk/oss/bin:/bin'']\<rparr>) =
     (Inl (ValueError ''illegal environment variable name''),
      example_state\<lparr>environ := [''PATH'' \<mapsto> ''/pk/oss/bin:/pk/oss/bin:/bin'']\<rparr>)"
    using leaky_call [of "''/pk/oss/bin:/bin''"] by simp
  show ?thesis
    by (simp add: first second) (simp add: example_state_def)
qed

subsection \<open>C10: the flag is set only after the mutations were applied\<close>





section \<open>Properties of the package check\<close>

lemma fail_with_eq:
  "fail_with message package_name st = (Inl (SystemExit 1), reported message package_name st)"
  by (simp add: fail_with_def reported_def show_package_install_instructions_def
      secho_def echo_def)

text \<open>A check that returns has printed nothing and changed nothing.\<close>

lemma check_required_package_returns:
  "check_required_package lib h package_name current_version spec_version res st = (Inr u, st1)
     \<Longrightarrow> st1 = st"
  by (auto simp: check_required_package_def fail_with_eq
      split: option.splits sum.splits bool.splits if_splits)

lemma check_packages_loop_returns:
  "check_packages_loop lib h res installed spec_packages names st = (Inr u, st1) \<Longrightarrow> st1 = st"
proof (induction names arbitrary: st)
  case Nil
  then show ?case by simp
next
  case (Cons n names)
  show ?case
  proof (cases "map_of (all_packages res) n = None")
    case True
    with Cons.prems show ?thesis by simp
  next
    case known: False
    show ?thesis
    proof (cases "map_of (platform_packages res) n = None")
      case True
      have "check_packages_loop lib h res installed spec_packages names st = (Inr u, st1)"
        using Cons.prems by (simp add: known True)
      then show ?thesis by (rule Cons.IH)
    next
      case platform: False
      obtain sp where sp: "spec_packages = Some sp"
        using Cons.prems by (cases spec_packages) (simp_all add: known platform)
      obtain r st2 where one:
        "check_required_package lib h n (get_current_version installed n)
           (get_spec_version sp n) res st = (r, st2)"
        by (cases "check_required_package lib h n (get_current_version installed n)
                     (get_spec_version sp n) res st")
      obtain u' where r: "r = Inr u'"
        using Cons.prems by (cases r) (simp_all add: known platform sp one)
      have "st2 = st"
        using one r by (auto dest: check_required_package_returns)
      then have "check_packages_loop lib h res installed spec_packages names st = (Inr u, st1)"
        using Cons.prems by (simp add: known platform sp one r)
      then show ?thesis by (rule Cons.IH)
    qed
  qed
qed

text \<open>The loop over a list in two parts: the second part runs only if the first returns.\<close>

lemma check_packages_loop_append:
  "check_packages_loop lib h res installed spec_packages (pre @ post) st =
     (case check_packages_loop lib h res installed spec_packages pre st of
        (Inl e, st1) \<Rightarrow> (Inl e, st1)
      | (Inr u, st1) \<Rightarrow> check_packages_loop lib h res installed spec_packages post st1)"
proof (induction pre arbitrary: st)
  case Nil
  show ?case by simp
next
  case (Cons n pre)
  show ?case
    using Cons.IH
    by (cases spec_packages) (auto simp: Let_def split: sum.splits prod.splits)
qed

lemma check_required_packages_append:
  "check_required_packages lib h prof (pre @ post) res st =
     (case check_required_packages lib h prof pre res st of
        (Inl e, st1) \<Rightarrow> (Inl e, st1)
      | (Inr u, st1) \<Rightarrow> check_required_packages lib h prof post res st1)"
  by (simp add: check_required_packages_def check_packages_loop_append Let_def
      split: prod.splits sum.splits)

lemma check_required_packages_returns:
  "check_required_packages lib h prof names res st = (Inr u, st1) \<Longrightarrow> st1 = st"
  by (auto simp: check_required_packages_def dest: check_packages_loop_returns)

lemma first_occurrence_split:
  assumes "n \<in> set names"
  shows "\<exists>post. names = takeWhile (\<lambda>x. x \<noteq> n) names @ n # post"
proof -
  have "dropWhile (\<lambda>x. x \<noteq> n) names \<noteq> []"
    using assms by auto
  then obtain y post where d: "dropWhile (\<lambda>x. x \<noteq> n) names = y # post"
    by (cases "dropWhile (\<lambda>x. x \<noteq> n) names") auto
  then have "y = n"
    using hd_dropWhile [of "\<lambda>x. x \<noteq> n" names] by auto
  with d have "names = takeWhile (\<lambda>x. x \<noteq> n) names @ n # post"
    using takeWhile_dropWhile_id [of "\<lambda>x. x \<noteq> n" names] by simp
  then show ?thesis ..
qed

subsection \<open>C5: a required name outside the catalog\<close>

text \<open>
  C5: let \<open>n\<close> be a required name that is not in \<open>all_packages\<close>. The names before
  its first occurrence are checked first; if that check raises, the call ends there with
  that error. Otherwise the call raises \<open>RuntimeError\<close> for \<open>n\<close>, with nothing printed:
  not the \<open>SystemExit 1\<close> of the three user errors, and never a normal return.
\<close>

theorem unknown_package_is_internal_error:
  assumes "n \<in> set names" and "map_of (all_packages res) n = None"
  shows "check_required_packages lib h prof names res st =
           (case check_required_packages lib h prof (takeWhile (\<lambda>x. x \<noteq> n) names) res st of
              (Inl e, st1) \<Rightarrow> (Inl e, st1)
            | (Inr u, st1) \<Rightarrow> (Inl (RuntimeError (unknown_package_message n)), st))
         \<and> fst (check_required_packages lib h prof names res st) \<noteq> Inr ()
         \<and> RuntimeError (unknown_package_message n) \<noteq> SystemExit 1"
proof -
  let ?pre = "takeWhile (\<lambda>x. x \<noteq> n) names"
  obtain post where split: "names = ?pre @ n # post"
    using first_occurrence_split [OF assms(1)] by blast
  obtain r st1 where pre: "check_required_packages lib h prof ?pre res st = (r, st1)"
    by (cases "check_required_packages lib h prof ?pre res st")
  have at_n: "check_required_packages lib h prof (n # post) res st1 =
                (Inl (RuntimeError (unknown_package_message n)), st1)"
    using assms(2) by (simp add: check_required_packages_def)
  have whole: "check_required_packages lib h prof names res st =
                 (case r of Inl e \<Rightarrow> (Inl e, st1)
                  | Inr u \<Rightarrow> (Inl (RuntimeError (unknown_package_message n)), st1))"
    using check_required_packages_append [of lib h prof ?pre "n # post" res st] split pre at_n
    by (simp split: sum.splits)
  have same: "st1 = st" if "r = Inr u" for u
    using pre that by (auto dest: check_required_packages_returns)
  show ?thesis
    using whole pre same by (cases r) auto
qed

lemma example_oss_satisfied:
  "check_required_packages plain_semver example_host example_profile [''oss'']
     example_resources example_state = (Inr (), example_state)"
  by (simp add: check_required_packages_def example_resources_def example_profile_def
      get_current_version_def get_spec_version_def check_required_package_def
      version_matches_def plain_semver_def parse_plain_block_def parse_plain_version_def
      parse_number_def digit_val_def plain_contains_def example_host_def)

theorem unknown_package_is_internal_error_witness:
  "''nope'' \<in> set [''oss'', ''nope'', ''graphviz'']
   \<and> map_of (all_packages example_resources) ''nope'' = None
   \<and> check_required_packages plain_semver example_host example_profile
        [''oss'', ''nope'', ''graphviz''] example_resources example_state
       = (Inl (RuntimeError ''Unknown package named [nope]''), example_state)"
proof -
  have a: "''nope'' \<in> set [''oss'', ''nope'', ''graphviz'']"
    by simp
  have b: "map_of (all_packages example_resources) ''nope'' = None"
    by (simp add: example_resources_def)
  show ?thesis
    using unknown_package_is_internal_error [OF a b, of plain_semver example_host
        example_profile example_state] a b
    by (simp add: example_oss_satisfied unknown_package_message_def)
qed

subsection \<open>C4: the first user error ends the call\<close>

lemma user_error_exits:
  assumes "user_error lib h res package_name current_version spec_version = Some message"
  shows "check_required_package lib h package_name current_version spec_version res st =
           (Inl (SystemExit 1), reported message package_name st)"
  using assms
  by (auto simp: user_error_def check_required_package_def fail_with_eq
      split: option.splits sum.splits bool.splits if_splits)

text \<open>
  C4: let the required names before \<open>a\<close> pass (each is skipped or satisfied), and let
  \<open>a\<close>, a package of this platform, fail a user-level check with the message \<open>message\<close>.
  Then the call ends with \<open>SystemExit 1\<close>, having printed the error of \<open>a\<close> and its
  install instructions and nothing else, whatever names follow \<open>a\<close>: they are neither
  checked nor reported.
\<close>

theorem verification_is_fail_fast:
  assumes "check_required_packages lib h prof pre res st = (Inr (), st1)"
    and "map_of (all_packages res) a \<noteq> None"
    and "map_of (platform_packages res) a \<noteq> None"
    and "distribution res ''packages'' = Some sp"
    and "user_error lib h res a (get_current_version (packages prof) a)
           (get_spec_version sp a) = Some message"
  shows "check_required_packages lib h prof (pre @ a # post) res st =
           (Inl (SystemExit 1), reported message a st)"
proof -
  have st1: "st1 = st"
    using assms(1) by (rule check_required_packages_returns)
  have "check_required_packages lib h prof (a # post) res st =
          (Inl (SystemExit 1), reported message a st)"
    by (simp add: check_required_packages_def assms(2,3,4) user_error_exits [OF assms(5)])
  then show ?thesis
    using assms(1) st1 by (simp add: check_required_packages_append)
qed

lemma example_drivers_oss_pass:
  "check_required_packages plain_semver example_host example_profile [''drivers'', ''oss'']
     example_resources example_state = (Inr (), example_state)"
  by (simp add: check_required_packages_def example_resources_def example_profile_def
      get_current_version_def get_spec_version_def check_required_package_def
      version_matches_def plain_semver_def parse_plain_block_def parse_plain_version_def
      parse_number_def digit_val_def plain_contains_def example_host_def)

lemma example_examples_fails:
  "check_required_packages plain_semver example_host example_profile [''examples'']
     example_resources example_state =
     (Inl (SystemExit 1), reported (dir_missing_message ''examples'') ''examples'' example_state)"
  by (simp add: check_required_packages_def example_resources_def example_profile_def
      get_current_version_def get_spec_version_def check_required_package_def
      version_matches_def plain_semver_def parse_plain_block_def parse_plain_version_def
      parse_number_def digit_val_def plain_contains_def example_host_def fail_with_eq)

theorem verification_is_fail_fast_witness:
  "check_required_packages plain_semver example_host example_profile [''drivers'', ''oss'']
     example_resources example_state = (Inr (), example_state)
   \<and> map_of (all_packages example_resources) ''graphviz'' \<noteq> None
   \<and> map_of (platform_packages example_resources) ''graphviz'' \<noteq> None
   \<and> get_current_version (packages example_profile) ''graphviz'' = None
   \<and> check_required_packages plain_semver example_host example_profile [''examples'']
        example_resources example_state =
       (Inl (SystemExit 1),
        reported (dir_missing_message ''examples'') ''examples'' example_state)
   \<and> check_required_packages plain_semver example_host example_profile
        ([''drivers'', ''oss''] @ ''graphviz'' # [''examples'']) example_resources example_state =
       (Inl (SystemExit 1),
        reported (not_installed_message ''graphviz'') ''graphviz'' example_state)"
proof -
  have a: "map_of (all_packages example_resources) ''graphviz'' \<noteq> None"
    by (simp add: example_resources_def)
  have b: "map_of (platform_packages example_resources) ''graphviz'' \<noteq> None"
    by (simp add: example_resources_def)
  have c: "distribution example_resources ''packages'' =
             Some [''oss'' \<mapsto> ''>=0.1.0'', ''examples'' \<mapsto> ''>=0.0.35'',
                   ''graphviz'' \<mapsto> ''>=0.0.2'', ''drivers'' \<mapsto> ''>=1.0.0'']"
    by (simp add: example_resources_def)
  have d: "get_current_version (packages example_profile) ''graphviz'' = None"
    by (simp add: get_current_version_def example_profile_def)
  have e: "user_error plain_semver example_host example_resources ''graphviz''
             (get_current_version (packages example_profile) ''graphviz'')
             (get_spec_version [''oss'' \<mapsto> ''>=0.1.0'', ''examples'' \<mapsto> ''>=0.0.35'',
                   ''graphviz'' \<mapsto> ''>=0.0.2'', ''drivers'' \<mapsto> ''>=1.0.0''] ''graphviz'')
           = Some (not_installed_message ''graphviz'')"
    by (simp add: d user_error_def)
  show ?thesis
    using verification_is_fail_fast [OF example_drivers_oss_pass a b c e, of "[''examples'']"]
      a b d example_drivers_oss_pass example_examples_fails
    by simp
qed

subsection \<open>C6: an installed version that does not parse\<close>

text \<open>
  C6: let the constraint parse and let \<open>Version\<close> reject the installed version with a
  \<open>ValueError\<close>. Then \<open>version_matches\<close> returns \<open>False\<close> instead of raising, and the
  check of the package reports the version mismatch: it prints the mismatch error and
  the install instructions and exits with status 1.
\<close>

theorem malformed_version_is_mismatch:
  assumes "SimpleSpec lib spec_version = Inr spec"
    and "Version lib current_version = Inl (ValueError msg)"
  shows "version_matches lib current_version spec_version = Inr False
         \<and> check_required_package lib h package_name (Some current_version) spec_version res st
             = (Inl (SystemExit 1),
                reported (version_mismatch_message package_name current_version spec_version)
                  package_name st)"
proof -
  have "version_matches lib current_version spec_version = Inr False"
    using assms by (simp add: version_matches_def)
  then show ?thesis
    by (simp add: check_required_package_def fail_with_eq)
qed

lemma plain_spec_ge_0_0_1: "SimpleSpec plain_semver ''>=0.0.1'' = Inr (''>='', 0, 0, 1)"
  by (simp add: plain_semver_def parse_plain_block_def parse_plain_version_def
      parse_number_def digit_val_def)

lemma plain_version_not_a_version:
  "Version plain_semver ''not-a-version'' =
     Inl (ValueError (''Invalid version string: '' @ quoted ''not-a-version''))"
  by (simp add: plain_semver_def parse_plain_version_def parse_number_def digit_val_def)

theorem malformed_version_is_mismatch_witness:
  "SimpleSpec plain_semver ''>=0.0.1'' = Inr (''>='', 0, 0, 1)
   \<and> Version plain_semver ''not-a-version'' =
       Inl (ValueError (''Invalid version string: '' @ quoted ''not-a-version''))
   \<and> version_matches plain_semver ''not-a-version'' ''>=0.0.1'' = Inr False
   \<and> check_required_package plain_semver example_host ''oss'' (Some ''not-a-version'')
        ''>=0.0.1'' example_resources example_state
       = (Inl (SystemExit 1),
          reported (version_mismatch_message ''oss'' ''not-a-version'' ''>=0.0.1'') ''oss''
            example_state)"
  using malformed_version_is_mismatch [OF plain_spec_ge_0_0_1 plain_version_not_a_version,
      of example_host "''oss''" example_resources example_state]
    plain_spec_ge_0_0_1 plain_version_not_a_version
  by simp

subsection \<open>C9: the directory of the package\<close>

text \<open>
  C9: let the installed version satisfy the constraint. If the directory lookup gives no
  directory, or gives one that exists, the check returns with the state as it was:
  nothing printed, nothing changed. If it gives a path that is not a directory, the
  check prints that the package is installed but missing, then the install
  instructions, and exits with status 1.
\<close>

theorem directory_check_after_version:
  assumes "version_matches lib current_version spec_version = Inr True"
  shows "check_required_package lib h package_name (Some current_version) spec_version res st
         = (case get_package_dir res package_name of
              None \<Rightarrow> (Inr (), st)
            | Some package_dir \<Rightarrow>
                if is_dir h package_dir then (Inr (), st)
                else (Inl (SystemExit 1),
                      reported (dir_missing_message package_name) package_name st))"
  using assms
  by (simp add: check_required_package_def fail_with_eq split: option.splits)

lemma plain_1_2_3_matches: "version_matches plain_semver ''1.2.3'' ''>=1.0.0'' = Inr True"
  by (simp add: version_matches_def plain_semver_def parse_plain_block_def
      parse_plain_version_def parse_number_def digit_val_def plain_contains_def)

theorem directory_check_after_version_witness:
  "version_matches plain_semver ''1.2.3'' ''>=1.0.0'' = Inr True
   \<and> check_required_package plain_semver example_host ''oss'' (Some ''1.2.3'') ''>=1.0.0''
        example_resources example_state = (Inr (), example_state)
   \<and> check_required_package plain_semver example_host ''drivers'' (Some ''1.2.3'') ''>=1.0.0''
        example_resources example_state = (Inr (), example_state)
   \<and> check_required_package plain_semver example_host ''examples'' (Some ''1.2.3'') ''>=1.0.0''
        example_resources example_state
       = (Inl (SystemExit 1),
          reported (dir_missing_message ''examples'') ''examples'' example_state)"
  using directory_check_after_version [OF plain_1_2_3_matches, of example_host "''oss''"
      example_resources example_state]
    directory_check_after_version [OF plain_1_2_3_matches, of example_host "''drivers''"
      example_resources example_state]
    directory_check_after_version [OF plain_1_2_3_matches, of example_host "''examples''"
      example_resources example_state]
    plain_1_2_3_matches
  by (simp add: example_resources_def example_host_def)

subsection \<open>C2: the empty constraint\<close>

text \<open>
  C2: a package whose constraint is the empty string is to pass the version check
  whatever its installed version, and the check is not to raise because of the empty
  constraint. The code supplies the empty string itself, as the default for a package
  without a constraint in the distribution, and hands it to \<open>SimpleSpec\<close> outside the
  \<^verbatim>\<open>try\<close>. With a library that rejects the empty constraint, as \<open>plain_semver\<close> and the
  library in use do, the check of \<^verbatim>\<open>gtkwave\<close> (installed at 1.0.0, no constraint in the
  distribution) neither passes nor reports a user error: the \<open>ValueError\<close> escapes, with
  nothing printed.
\<close>

theorem empty_constraint_raises:
  "map_of (platform_packages example_resources) ''gtkwave'' = Some gtkwave_config
   \<and> get_current_version (packages example_profile) ''gtkwave'' = Some ''1.0.0''
   \<and> version_matches plain_semver ''1.0.0'' [] =
       Inl (ValueError (''Invalid simple block '' @ quoted []))
   \<and> check_required_packages plain_semver example_host example_profile [''gtkwave'']
        example_resources example_state
       = (Inl (ValueError (''Invalid simple block '' @ quoted [])), example_state)"
  by (simp add: check_required_packages_def example_resources_def example_profile_def
      get_current_version_def get_spec_version_def check_required_package_def
      version_matches_def plain_semver_def parse_plain_block_def)

end
